theory Spec2Isabelle
  imports Complex_Main "HOL-Library.AList" "HOL-Library.Char_ord" "HOL-Library.List_Lexorder"
begin

section \<open>Parsed result documents\<close>

text \<open>
  The four plotting scripts under \<^verbatim>\<open>tools/\<close> read Criterion result files with
  \<^verbatim>\<open>json.loads\<close>. A parsed document is a Python value: \<^verbatim>\<open>None\<close>, a bool, a number,
  a string, a list or a dict. A dict keeps its keys in insertion order, so it is an
  association list here (Python never holds the same key twice; nothing below depends
  on that). A number without fraction or exponent is a Python \<^verbatim>\<open>int\<close> (\<open>JInt\<close>), any
  other number a \<^verbatim>\<open>float\<close> (\<open>JNum\<close>). Floats are read as reals: the comparisons of the
  scripts are exact on floats and their divisions are rounded to the nearest float, which
  the reals idealise; the infinities and \<^verbatim>\<open>NaN\<close> are not represented.
\<close>

datatype json =
    JNull
  | JBool bool
  | JInt int
  | JNum real
  | JStr string
  | JArr "json list"
  | JObj "(string \<times> json) list"

text \<open>\<^verbatim>\<open>isinstance(v, dict)\<close>\<close>

definition is_dict :: "json \<Rightarrow> bool" where
  "is_dict v = (case v of JObj _ \<Rightarrow> True | _ \<Rightarrow> False)"

text \<open>\<^verbatim>\<open>d.items()\<close> of a dict, in insertion order.\<close>

definition dict_items :: "json \<Rightarrow> (string \<times> json) list" where
  "dict_items v = (case v of JObj kvs \<Rightarrow> kvs | _ \<Rightarrow> [])"

text \<open>\<^verbatim>\<open>d.values()\<close>\<close>

definition dict_values :: "json \<Rightarrow> json list" where
  "dict_values d = map snd (dict_items d)"

text \<open>\<^verbatim>\<open>k in d\<close>\<close>

definition dict_in :: "string \<Rightarrow> json \<Rightarrow> bool" where
  "dict_in k d = (k \<in> set (map fst (dict_items d)))"

text \<open>\<^verbatim>\<open>d[k]\<close>, where \<open>None\<close> stands for the \<^verbatim>\<open>KeyError\<close>.\<close>

definition dict_getitem :: "json \<Rightarrow> string \<Rightarrow> json option" where
  "dict_getitem d k = map_of (dict_items d) k"

text \<open>\<^verbatim>\<open>d.get(k)\<close>: Python's \<^verbatim>\<open>None\<close> (here \<open>JNull\<close>) when the key is absent.\<close>

definition dict_get :: "json \<Rightarrow> string \<Rightarrow> json" where
  "dict_get d k = (case dict_getitem d k of Some v \<Rightarrow> v | None \<Rightarrow> JNull)"

text \<open>
  The test \<^verbatim>\<open>k in data and isinstance(data[k], dict)\<close>: the \<^verbatim>\<open>and\<close> evaluates
  \<^verbatim>\<open>data[k]\<close> only when the key is present. The result is the dict \<^verbatim>\<open>data[k]\<close> when
  the test holds.
\<close>

definition dict_member :: "json \<Rightarrow> string \<Rightarrow> json option" where
  "dict_member data k =
     (if dict_in k data then
        (case dict_getitem data k of
           Some v \<Rightarrow> (if is_dict v then Some v else None)
         | None \<Rightarrow> None)
      else None)"

section \<open>Estimate extractor\<close>

text \<open>
  The same block stands in all four scripts (\<^verbatim>\<open>plot_datetime_bench.py\<close> lines 23-33,
  \<^verbatim>\<open>plot_duckdb_write_bench.py\<close> 26-38, \<^verbatim>\<open>plot_sqllog_bench.py\<close> 17-27,
  \<^verbatim>\<open>plot_sqllog_varied.py\<close> 25-35):
  \<^verbatim>\<open>
  median = None
  if isinstance(data, dict):
      if 'median' in data and isinstance(data['median'], dict):
          median = data['median'].get('point_estimate')
      elif 'mean' in data and isinstance(data['mean'], dict):
          median = data['mean'].get('point_estimate')
      else:
          for v in data.values():
              if isinstance(v, dict) and 'point_estimate' in v:
                  median = v['point_estimate']
                  break
  \<close>
  The variable \<^verbatim>\<open>median\<close> is a Python value; \<open>JNull\<close> is its \<^verbatim>\<open>None\<close>.
\<close>

text \<open>The \<^verbatim>\<open>for\<close> loop with its \<^verbatim>\<open>break\<close>; \<^verbatim>\<open>median\<close> stays \<^verbatim>\<open>None\<close> when no value matches.\<close>

fun scan_values :: "json list \<Rightarrow> json" where
  "scan_values [] = JNull"
| "scan_values (v # vs) =
     (if is_dict v \<and> dict_in ''point_estimate'' v
      then (case dict_getitem v ''point_estimate'' of Some x \<Rightarrow> x | None \<Rightarrow> JNull)
      else scan_values vs)"

definition extract_median :: "json \<Rightarrow> json" where
  "extract_median data =
     (if is_dict data then
        (case dict_member data ''median'' of
           Some m \<Rightarrow> dict_get m ''point_estimate''
         | None \<Rightarrow>
            (case dict_member data ''mean'' of
               Some m \<Rightarrow> dict_get m ''point_estimate''
             | None \<Rightarrow> scan_values (dict_values data)))
      else JNull)"

text \<open>
  For a document with the entries \<open>kvs\<close>: the entries of the top-level value under a
  name, when that value is itself a key-value structure.
\<close>

definition statistic :: "(string \<times> json) list \<Rightarrow> string \<Rightarrow> (string \<times> json) list option" where
  "statistic kvs name = (case map_of kvs name of Some (JObj m) \<Rightarrow> Some m | _ \<Rightarrow> None)"

text \<open>
  The \<^verbatim>\<open>point_estimate\<close> field of a value that is a key-value structure containing that
  field; \<open>None\<close> for any other value.
\<close>

definition point_estimate :: "json \<Rightarrow> json option" where
  "point_estimate v = (case v of JObj m \<Rightarrow> map_of m ''point_estimate'' | _ \<Rightarrow> None)"

text \<open>
  The extractor as section 4.2 of the specification words it, an ordered preference
  where the first match wins:
  \<^enum> if the document has a top-level \<^verbatim>\<open>median\<close> whose value is a key-value structure
    containing a point estimate field, that field's value;
  \<^enum> else, if a top-level \<^verbatim>\<open>mean\<close> exists with the same shape, its field;
  \<^enum> else the field of the first top-level value, in insertion order, that is a key-value
    structure containing the field;
  \<^enum> else no estimate.
\<close>

definition spec_statistic :: "(string \<times> json) list \<Rightarrow> string \<Rightarrow> json option" where
  "spec_statistic kvs name =
     (case map_of kvs name of Some v \<Rightarrow> point_estimate v | None \<Rightarrow> None)"

definition spec_extract :: "(string \<times> json) list \<Rightarrow> json option" where
  "spec_extract kvs =
     (case spec_statistic kvs ''median'' of
        Some x \<Rightarrow> Some x
      | None \<Rightarrow>
         (case spec_statistic kvs ''mean'' of
            Some x \<Rightarrow> Some x
          | None \<Rightarrow>
             (case List.find (\<lambda>v. point_estimate v \<noteq> None) (map snd kvs) of
                Some v \<Rightarrow> point_estimate v
              | None \<Rightarrow> None)))"

text \<open>Python's \<^verbatim>\<open>None\<close> for "no estimate".\<close>

definition py_value :: "json option \<Rightarrow> json" where
  "py_value r = (case r of Some v \<Rightarrow> v | None \<Rightarrow> JNull)"

section \<open>Unit normaliser\<close>

text \<open>
  \<^verbatim>\<open>plot_datetime_bench.py\<close> lines 38-42, \<^verbatim>\<open>plot_sqllog_bench.py\<close> 32-36 and
  \<^verbatim>\<open>plot_sqllog_varied.py\<close> 38-42, on the float \<^verbatim>\<open>t\<close>:
  \<^verbatim>\<open>
  if t > 1e6:
      t = t / 1e9
  elif t > 1e3:
      t = t / 1e6
  \<close>
\<close>

definition normalize :: "real \<Rightarrow> real" where
  "normalize t =
     (if t > 1000000 then t / 1000000000
      else if t > 1000 then t / 1000000
      else t)"

section \<open>Results directory and result files\<close>

text \<open>
  A path is the list of its components. The results tree is a partial map from paths
  to nodes: a directory lists the names of its entries in the order in which
  \<^verbatim>\<open>iterdir\<close> enumerates them (any order), a file holds what
  \<^verbatim>\<open>json.loads(p.read_text(encoding='utf-8'))\<close> makes of it: the parsed document, or
  \<open>None\<close> when the file cannot be read as UTF-8 text or its text is not JSON, and the
  call raises (\<open>JSONDecodeError\<close> stands for whichever exception that is).
\<close>

type_synonym path = "string list"

datatype node = Dir "string list" | File "json option"

type_synonym filesystem = "path \<Rightarrow> node option"

text \<open>
  What ends a run early: \<^verbatim>\<open>raise SystemExit(message)\<close> of the scripts, with the three
  messages they use, or an exception of a library call that no script catches. Either
  way the interpreter terminates with a non-zero status.
\<close>

datatype exit_message =
    DirectoryNotFound path  \<comment> \<open>\<^verbatim>\<open>'Criterion output directory not found: ' + str(root)\<close>\<close>
  | NoEstimatesFound path   \<comment> \<open>\<^verbatim>\<open>'No estimates found in ' + str(root)\<close>\<close>
  | NoMedianFound           \<comment> \<open>\<^verbatim>\<open>'Could not find median in estimates'\<close>\<close>

datatype failure =
    SystemExit exit_message
  | FileNotFoundError
  | NotADirectoryError
  | IsADirectoryError
  | JSONDecodeError
  | ValueError
  | TypeError
  | OverflowError

text \<open>\<^verbatim>\<open>p.exists()\<close>\<close>

definition path_exists :: "filesystem \<Rightarrow> path \<Rightarrow> bool" where
  "path_exists fs p = (fs p \<noteq> None)"

text \<open>\<^verbatim>\<open>p.is_dir()\<close>\<close>

definition is_dir :: "filesystem \<Rightarrow> path \<Rightarrow> bool" where
  "is_dir fs p = (case fs p of Some (Dir _) \<Rightarrow> True | _ \<Rightarrow> False)"

text \<open>\<^verbatim>\<open>p.iterdir()\<close>, as the names of the entries.\<close>

definition iterdir :: "filesystem \<Rightarrow> path \<Rightarrow> failure + string list" where
  "iterdir fs p =
     (case fs p of
        Some (Dir names) \<Rightarrow> Inr names
      | Some (File _) \<Rightarrow> Inl NotADirectoryError
      | None \<Rightarrow> Inl FileNotFoundError)"

text \<open>\<^verbatim>\<open>json.loads(p.read_text(encoding='utf-8'))\<close>\<close>

definition read_json :: "filesystem \<Rightarrow> path \<Rightarrow> failure + json" where
  "read_json fs p =
     (case fs p of
        Some (File (Some data)) \<Rightarrow> Inr data
      | Some (File None) \<Rightarrow> Inl JSONDecodeError
      | Some (Dir _) \<Rightarrow> Inl IsADirectoryError
      | None \<Rightarrow> Inl FileNotFoundError)"

section \<open>Python builtins on strings and numbers\<close>

text \<open>
  Two conversions of the interpreter are parameters of the model, \<open>None\<close> standing for
  their \<^verbatim>\<open>ValueError\<close>: what \<^verbatim>\<open>float\<close> makes of a string, and what \<^verbatim>\<open>int\<close> makes of
  a string that holds characters outside ASCII (Unicode digits and spaces).
\<close>

record builtins =
  float_str :: "string \<Rightarrow> real option"
  int_other :: "string \<Rightarrow> int option"

text \<open>
  \<^verbatim>\<open>float(median)\<close>: a float converts to itself, an \<^verbatim>\<open>int\<close> to the nearest float, with
  \<^verbatim>\<open>OverflowError\<close> when it rounds beyond the largest double (from \<open>2^1024 - 2^970\<close>
  on), a bool to 1 or 0; a list, a dict and \<^verbatim>\<open>None\<close> raise \<^verbatim>\<open>TypeError\<close>.
\<close>

definition to_float :: "builtins \<Rightarrow> json \<Rightarrow> failure + real" where
  "to_float py v =
     (case v of
        JNum r \<Rightarrow> Inr r
      | JInt i \<Rightarrow> (if \<bar>i\<bar> < 2 ^ 1024 - 2 ^ 970 then Inr (of_int i) else Inl OverflowError)
      | JBool b \<Rightarrow> Inr (if b then 1 else 0)
      | JStr s \<Rightarrow> (case float_str py s of Some r \<Rightarrow> Inr r | None \<Rightarrow> Inl ValueError)
      | JNull \<Rightarrow> Inl TypeError
      | JArr _ \<Rightarrow> Inl TypeError
      | JObj _ \<Rightarrow> Inl TypeError)"

text \<open>
  \<^verbatim>\<open>int(name)\<close> on an ASCII string: surrounding whitespace (tab, line feed, vertical
  tab, form feed, carriage return, space) is stripped, a sign may come first, then
  decimal digits, where single underscores may stand between digits. \<open>None\<close> is the
  \<^verbatim>\<open>ValueError\<close>. A file name is too short to reach the interpreter's limit on the
  number of digits.
\<close>

definition is_ascii :: "string \<Rightarrow> bool" where
  "is_ascii s = list_all (\<lambda>c. (of_char c :: nat) < 128) s"

definition is_space :: "char \<Rightarrow> bool" where
  "is_space c = (let n = (of_char c :: nat) in (9 \<le> n \<and> n \<le> 13) \<or> n = 32)"

definition is_digit :: "char \<Rightarrow> bool" where
  "is_digit c = (let n = (of_char c :: nat) in 48 \<le> n \<and> n \<le> 57)"

definition digit_value :: "char \<Rightarrow> nat" where
  "digit_value c = of_char c - 48"

definition strip :: "string \<Rightarrow> string" where
  "strip s = rev (dropWhile is_space (rev (dropWhile is_space s)))"

fun digits_value :: "nat \<Rightarrow> string \<Rightarrow> nat option" where
  "digits_value acc [] = Some acc"
| "digits_value acc [c] =
     (if is_digit c then Some (10 * acc + digit_value c) else None)"
| "digits_value acc (c # d # ds) =
     (if is_digit c then digits_value (10 * acc + digit_value c) (d # ds)
      else if c = CHR ''_'' \<and> is_digit d then digits_value (10 * acc + digit_value d) ds
      else None)"

definition py_nat :: "string \<Rightarrow> nat option" where
  "py_nat s =
     (case s of
        [] \<Rightarrow> None
      | c # cs \<Rightarrow> (if is_digit c then digits_value (digit_value c) cs else None))"

definition ascii_int :: "string \<Rightarrow> int option" where
  "ascii_int s =
     (case strip s of
        [] \<Rightarrow> None
      | c # cs \<Rightarrow>
         (if c = CHR ''-'' then map_option (\<lambda>n. - int n) (py_nat cs)
          else if c = CHR ''+'' then map_option int (py_nat cs)
          else map_option int (py_nat (c # cs))))"

definition py_int :: "builtins \<Rightarrow> string \<Rightarrow> int option" where
  "py_int py s = (if is_ascii s then ascii_int s else int_other py s)"





section \<open>Result locator and the per-case pipeline\<close>

text \<open>
  Every script locates the result file of a case directory \<open>d\<close> the same way
  (\<^verbatim>\<open>plot_datetime_bench.py\<close> lines 16-19, \<^verbatim>\<open>plot_duckdb_write_bench.py\<close> 18-21,
  \<^verbatim>\<open>plot_sqllog_bench.py\<close> 10-13, \<^verbatim>\<open>plot_sqllog_varied.py\<close> 19-22):
  \<^verbatim>\<open>
  p = d / 'base' / 'estimates.json'
  if not p.exists():
      p = d / 'new' / 'benchmark.json'
  if not p.exists():
      ...
  \<close>
\<close>

definition primary_path :: "path \<Rightarrow> path" where
  "primary_path d = d @ [''base'', ''estimates.json'']"

definition secondary_path :: "path \<Rightarrow> path" where
  "secondary_path d = d @ [''new'', ''benchmark.json'']"

definition locate :: "filesystem \<Rightarrow> path \<Rightarrow> path option" where
  "locate fs d =
     (let p = primary_path d;
          p = (if \<not> path_exists fs p then secondary_path d else p)
      in if \<not> path_exists fs p then None else Some p)"

text \<open>
  After the locator every script reads the file, runs the extractor, tests
  \<^verbatim>\<open>median is None\<close> and converts with \<^verbatim>\<open>float(median)\<close>, in this order. The scripts
  differ in what they do when no file is found and when the estimate is \<^verbatim>\<open>None\<close>, so
  the pipeline reports which of the three ways it ended; a raised exception ends the run.
\<close>

datatype resolution = NoFile | NoMedian | Raw real

definition resolve :: "builtins \<Rightarrow> filesystem \<Rightarrow> path \<Rightarrow> failure + resolution" where
  "resolve py fs d =
     (case locate fs d of
        None \<Rightarrow> Inr NoFile
      | Some p \<Rightarrow>
         (case read_json fs p of
            Inl e \<Rightarrow> Inl e
          | Inr data \<Rightarrow>
             (let median = extract_median data
              in if median = JNull then Inr NoMedian
                 else (case to_float py median of
                         Inl e \<Rightarrow> Inl e
                       | Inr t \<Rightarrow> Inr (Raw t)))))"

section \<open>What a run leaves behind\<close>

text \<open>
  The lines a script prints, the charts it hands to \<^verbatim>\<open>plt.savefig\<close> with their
  paths, and how it ended. Creating the output directory and drawing with matplotlib
  are taken to succeed; they read nothing of the results tree.
\<close>

datatype message =
    MissingFor "string list"    \<comment> \<open>\<^verbatim>\<open>print('Missing estimates for', name)\<close>, \<^verbatim>\<open>print('Missing file for', m, s)\<close>\<close>
  | NoMedianFor "string list"   \<comment> \<open>\<^verbatim>\<open>print('Could not find median for', ...)\<close>\<close>
  | NoGroup string              \<comment> \<open>\<^verbatim>\<open>print('No group', group_name)\<close>\<close>
  | Wrote path                  \<comment> \<open>\<^verbatim>\<open>print('Wrote', out)\<close>\<close>





section \<open>\<^verbatim>\<open>plot_datetime_bench.py\<close>\<close>

definition datetime_root :: path where
  "datetime_root = [''target'', ''criterion'', ''datetime_validation'']"




section \<open>\<^verbatim>\<open>plot_sqllog_bench.py\<close>\<close>

definition sqllog_root :: path where
  "sqllog_root = [''target'', ''criterion'', ''sqllog_from_file_1m'']"


section \<open>\<^verbatim>\<open>plot_sqllog_varied.py\<close>\<close>

definition criterion_root :: path where
  "criterion_root = [''target'', ''criterion'']"

text \<open>
  The loop of \<^verbatim>\<open>extract_series\<close> (lines 16-48) over the entry names still to visit,
  with the lists \<^verbatim>\<open>sizes\<close> and \<^verbatim>\<open>vals\<close> built so far. Lines 43-47:
  \<^verbatim>\<open>
  try:
      sizes.append(int(d.name))
  except:
      sizes.append(len(sizes))
  \<close>
\<close>

fun series_collect ::
  "builtins \<Rightarrow> filesystem \<Rightarrow> path \<Rightarrow> string list \<Rightarrow> int list \<times> real list
     \<Rightarrow> failure + int list \<times> real list" where
  "series_collect py fs base [] (sizes, vals) = Inr (sizes, vals)"
| "series_collect py fs base (name # names) (sizes, vals) =
     (if \<not> is_dir fs (base @ [name]) then series_collect py fs base names (sizes, vals)
      else
        (case resolve py fs (base @ [name]) of
           Inl e \<Rightarrow> Inl e
         | Inr NoFile \<Rightarrow> series_collect py fs base names (sizes, vals)
         | Inr NoMedian \<Rightarrow> series_collect py fs base names (sizes, vals)
         | Inr (Raw t) \<Rightarrow>
             series_collect py fs base names
               (sizes @ [case py_int py name of Some k \<Rightarrow> k | None \<Rightarrow> int (length sizes)],
                vals @ [normalize t])))"

text \<open>
  \<^verbatim>\<open>extract_series(group_name)\<close>: what it prints, and what it raises or returns
  (\<open>None\<close> for Python's \<^verbatim>\<open>None\<close>). The entries are visited in the order
  \<^verbatim>\<open>sorted(base.iterdir(), key=lambda p: p.name)\<close>, the order of their names as strings.
\<close>

definition extract_series ::
  "builtins \<Rightarrow> filesystem \<Rightarrow> string
     \<Rightarrow> message list \<times> (failure + (int list \<times> real list) option)" where
  "extract_series py fs group_name =
     (let base = criterion_root @ [group_name]
      in if \<not> path_exists fs base then ([NoGroup group_name], Inr None)
         else
           (case iterdir fs base of
              Inl e \<Rightarrow> ([], Inl e)
            | Inr names \<Rightarrow>
               (case series_collect py fs base (sort names) ([], []) of
                  Inl e \<Rightarrow> ([], Inl e)
                | Inr series \<Rightarrow> ([], Inr (Some series)))))"



section \<open>\<^verbatim>\<open>plot_duckdb_write_bench.py\<close>\<close>

definition duckdb_root :: path where
  "duckdb_root = [''target'', ''criterion'', ''duckdb_write_modes'']"

definition modes :: "string list" where
  "modes = [''appender_direct'', ''in_memory_ctas'', ''csv_copy'']"

definition sizes :: "int list" where
  "sizes = [10000, 50000, 200000]"

text \<open>
  \<^verbatim>\<open>results = {m: {} for m in modes}\<close> is a dict of dicts; \<^verbatim>\<open>results[m]\<close> reads the
  dict of a mode and \<^verbatim>\<open>results[m][s] = v\<close> stores into it. Every mode the script looks
  up is a key from the start, so no \<^verbatim>\<open>KeyError\<close> arises.
\<close>

type_synonym mode_results = "(string \<times> (int \<times> real) list) list"


definition mode_dict :: "mode_results \<Rightarrow> string \<Rightarrow> (int \<times> real) list" where
  "mode_dict r m = (case map_of r m of Some d \<Rightarrow> d | None \<Rightarrow> [])"

definition store :: "mode_results \<Rightarrow> string \<Rightarrow> int \<Rightarrow> real \<Rightarrow> mode_results" where
  "store r m s v = AList.map_entry m (AList.update s v) r"



text \<open>
  The normalising pass of lines 47-54, over a copy of the items of each mode:
  \<^verbatim>\<open>
  for m in modes:
      for s, t in list(results[m].items()):
          if t > 1e6:
              results[m][s] = t / 1e9
          elif t > 1e3:
              results[m][s] = t / 1e6
  \<close>
\<close>

fun normalize_items :: "string \<Rightarrow> (int \<times> real) list \<Rightarrow> mode_results \<Rightarrow> mode_results" where
  "normalize_items m [] r = r"
| "normalize_items m ((s, t) # its) r =
     normalize_items m its
       (if t > 1000000 then store r m s (t / 1000000000)
        else if t > 1000 then store r m s (t / 1000000)
        else r)"

fun normalize_modes :: "string list \<Rightarrow> mode_results \<Rightarrow> mode_results" where
  "normalize_modes [] r = r"
| "normalize_modes (m # ms) r = normalize_modes ms (normalize_items m (mode_dict r m) r)"

text \<open>
  The line drawn for a mode, lines 61-63:
  \<^verbatim>\<open>
  xs = sorted(results[m].keys())
  ys = [results[m][x] for x in xs]
  \<close>
  Each \<open>x\<close> is a key of the dict, so \<^verbatim>\<open>results[m][x]\<close> is defined.
\<close>

definition mode_line :: "mode_results \<Rightarrow> string \<Rightarrow> string \<times> int list \<times> real list" where
  "mode_line r m =
     (let xs = sort (map fst (mode_dict r m));
          ys = map (\<lambda>x. the (map_of (mode_dict r m) x)) xs
      in (m, xs, ys))"


section \<open>Example results trees\<close>

text \<open>
  The examples below hold neither string estimates nor names outside ASCII, so the two
  conversions left open are never consulted in them; the examples fix them to fail.
\<close>

definition no_conversions :: builtins where
  "no_conversions = \<lparr>float_str = (\<lambda>s. None), int_other = (\<lambda>s. None)\<rparr>"

text \<open>A result file as Criterion writes it, with the given median.\<close>

definition estimates_file :: "json \<Rightarrow> node" where
  "estimates_file x =
     File (Some (JObj [(''mean'', JObj [(''point_estimate'', JNum 1)]),
                       (''median'', JObj [(''point_estimate'', x)])]))"

text \<open>
  A sweep of \<^verbatim>\<open>sqllog_write_file\<close> over the sizes 10000, 50000 and 200000, each case with
  its \<^verbatim>\<open>base/estimates.json\<close>.
\<close>

definition sweep_tree :: filesystem where
  "sweep_tree = map_of
     [([''target'', ''criterion''], Dir [''sqllog_write_file'']),
      ([''target'', ''criterion'', ''sqllog_write_file''], Dir [''10000'', ''50000'', ''200000'']),
      ([''target'', ''criterion'', ''sqllog_write_file'', ''10000''], Dir [''base'']),
      ([''target'', ''criterion'', ''sqllog_write_file'', ''10000'', ''base''],
         Dir [''estimates.json'']),
      ([''target'', ''criterion'', ''sqllog_write_file'', ''10000'', ''base'', ''estimates.json''],
         estimates_file (JNum (1 / 100))),
      ([''target'', ''criterion'', ''sqllog_write_file'', ''50000''], Dir [''base'']),
      ([''target'', ''criterion'', ''sqllog_write_file'', ''50000'', ''base''],
         Dir [''estimates.json'']),
      ([''target'', ''criterion'', ''sqllog_write_file'', ''50000'', ''base'', ''estimates.json''],
         estimates_file (JNum (5 / 100))),
      ([''target'', ''criterion'', ''sqllog_write_file'', ''200000''], Dir [''base'']),
      ([''target'', ''criterion'', ''sqllog_write_file'', ''200000'', ''base''],
         Dir [''estimates.json'']),
      ([''target'', ''criterion'', ''sqllog_write_file'', ''200000'', ''base'', ''estimates.json''],
         estimates_file (JNum (20 / 100)))]"

text \<open>
  A group \<^verbatim>\<open>sqllog_parse_file\<close> with an empty case directory \<^verbatim>\<open>1000\<close> and a case
  \<^verbatim>\<open>large\<close> that has its estimates.
\<close>

definition named_tree :: filesystem where
  "named_tree = map_of
     [([''target'', ''criterion''], Dir [''sqllog_parse_file'']),
      ([''target'', ''criterion'', ''sqllog_parse_file''], Dir [''large'', ''1000'']),
      ([''target'', ''criterion'', ''sqllog_parse_file'', ''1000''], Dir []),
      ([''target'', ''criterion'', ''sqllog_parse_file'', ''large''], Dir [''base'']),
      ([''target'', ''criterion'', ''sqllog_parse_file'', ''large'', ''base''],
         Dir [''estimates.json'']),
      ([''target'', ''criterion'', ''sqllog_parse_file'', ''large'', ''base'', ''estimates.json''],
         estimates_file (JNum 4200))]"


text \<open>
  A tree with one resolved case in each of the four reports: \<^verbatim>\<open>fast_valid\<close> in
  \<^verbatim>\<open>datetime_validation\<close>, the size 50000 of the mode \<^verbatim>\<open>csv_copy\<close> in
  \<^verbatim>\<open>duckdb_write_modes\<close> (in the \<^verbatim>\<open>new/benchmark.json\<close> layout), the single case of
  \<^verbatim>\<open>sqllog_from_file_1m\<close>, and the cases \<^verbatim>\<open>1000\<close> and \<^verbatim>\<open>large\<close> of \<^verbatim>\<open>sqllog_write_file\<close>.
\<close>

definition full_tree :: filesystem where
  "full_tree = map_of
     [([''target'', ''criterion''], Dir [''datetime_validation'', ''duckdb_write_modes'',
         ''sqllog_from_file_1m'', ''sqllog_write_file'']),
      ([''target'', ''criterion'', ''datetime_validation''], Dir [''fast_valid'']),
      ([''target'', ''criterion'', ''datetime_validation'', ''fast_valid''], Dir [''base'']),
      ([''target'', ''criterion'', ''datetime_validation'', ''fast_valid'', ''base''],
         Dir [''estimates.json'']),
      ([''target'', ''criterion'', ''datetime_validation'', ''fast_valid'', ''base'',
        ''estimates.json''],
         estimates_file (JNum 1500000)),
      ([''target'', ''criterion'', ''duckdb_write_modes''], Dir [''csv_copy'']),
      ([''target'', ''criterion'', ''duckdb_write_modes'', ''csv_copy''], Dir [''50000'']),
      ([''target'', ''criterion'', ''duckdb_write_modes'', ''csv_copy'', ''50000''], Dir [''new'']),
      ([''target'', ''criterion'', ''duckdb_write_modes'', ''csv_copy'', ''50000'', ''new''],
         Dir [''benchmark.json'']),
      ([''target'', ''criterion'', ''duckdb_write_modes'', ''csv_copy'', ''50000'', ''new'',
        ''benchmark.json''],
         estimates_file (JInt 2500000000)),
      ([''target'', ''criterion'', ''sqllog_from_file_1m''], Dir [''base'']),
      ([''target'', ''criterion'', ''sqllog_from_file_1m'', ''base''], Dir [''estimates.json'']),
      ([''target'', ''criterion'', ''sqllog_from_file_1m'', ''base'', ''estimates.json''],
         estimates_file (JNum 4200)),
      ([''target'', ''criterion'', ''sqllog_write_file''], Dir [''large'', ''1000'']),
      ([''target'', ''criterion'', ''sqllog_write_file'', ''1000''], Dir [''base'']),
      ([''target'', ''criterion'', ''sqllog_write_file'', ''1000'', ''base''],
         Dir [''estimates.json'']),
      ([''target'', ''criterion'', ''sqllog_write_file'', ''1000'', ''base'', ''estimates.json''],
         estimates_file (JNum (37 / 10000))),
      ([''target'', ''criterion'', ''sqllog_write_file'', ''large''], Dir [''base'']),
      ([''target'', ''criterion'', ''sqllog_write_file'', ''large'', ''base''],
         Dir [''estimates.json'']),
      ([''target'', ''criterion'', ''sqllog_write_file'', ''large'', ''base'', ''estimates.json''],
         estimates_file (JNum 4200))]"





section \<open>Invariant of the collected results\<close>


section \<open>Properties of the extractor\<close>

lemma dict_member_JObj:
  "dict_member (JObj kvs) k = map_option JObj (statistic kvs k)"
proof (cases "map_of kvs k")
  case None
  then show ?thesis
    by (simp add: dict_member_def dict_getitem_def dict_items_def statistic_def)
next
  case (Some v)
  then have "k \<in> fst ` set kvs"
    using map_of_eq_None_iff [of kvs k] by auto
  with Some show ?thesis
    by (cases v)
       (simp_all add: dict_member_def dict_getitem_def dict_items_def statistic_def
          is_dict_def dict_in_def)
qed

lemma dict_get_JObj:
  "dict_get (JObj m) k = py_value (map_of m k)"
  by (simp add: dict_get_def dict_getitem_def dict_items_def py_value_def)

lemma scan_step_test:
  "(is_dict v \<and> dict_in ''point_estimate'' v) = (point_estimate v \<noteq> None)"
proof (cases v)
  case (JObj m)
  have "(''point_estimate'' \<in> fst ` set m) = (map_of m ''point_estimate'' \<noteq> None)"
    by (simp add: map_of_eq_None_iff)
  with JObj show ?thesis
    by (simp add: is_dict_def dict_in_def dict_items_def point_estimate_def)
qed (simp_all add: is_dict_def point_estimate_def)

lemma scan_step_value:
  "is_dict v \<Longrightarrow> dict_getitem v ''point_estimate'' = point_estimate v"
  by (cases v) (simp_all add: is_dict_def dict_getitem_def dict_items_def point_estimate_def)

lemma scan_values_find:
  "scan_values vs =
     py_value (case List.find (\<lambda>v. point_estimate v \<noteq> None) vs of
                 Some v \<Rightarrow> point_estimate v | None \<Rightarrow> None)"
proof (induction vs)
  case Nil
  show ?case by (simp add: py_value_def)
next
  case (Cons v vs)
  show ?case
  proof (cases "point_estimate v \<noteq> None")
    case True
    then have t: "is_dict v \<and> dict_in ''point_estimate'' v"
      by (simp add: scan_step_test)
    then have "dict_getitem v ''point_estimate'' = point_estimate v"
      by (simp add: scan_step_value)
    with True t show ?thesis
      by (auto simp add: py_value_def)
  next
    case False
    then have "\<not> (is_dict v \<and> dict_in ''point_estimate'' v)"
      by (simp add: scan_step_test)
    with False Cons show ?thesis
      by auto
  qed
qed

text \<open>
  The generic scan returns the field of the first value, in order, that is a key-value
  structure holding the field: every value before it fails the test.
\<close>

lemma scan_values_first:
  assumes "i < length vs"
    and "point_estimate (vs ! i) = Some x"
    and "\<forall>j<i. point_estimate (vs ! j) = None"
  shows "scan_values vs = x"
  using assms
proof (induction vs arbitrary: i)
  case Nil
  then show ?case by simp
next
  case (Cons v vs)
  show ?case
  proof (cases i)
    case 0
    with Cons.prems have pe: "point_estimate v = Some x" by simp
    then have "is_dict v \<and> dict_in ''point_estimate'' v"
      by (simp add: scan_step_test)
    moreover from this pe have "dict_getitem v ''point_estimate'' = Some x"
      by (simp add: scan_step_value)
    ultimately show ?thesis by simp
  next
    case (Suc k)
    with Cons.prems have "point_estimate v = None" by auto
    then have no: "\<not> (is_dict v \<and> dict_in ''point_estimate'' v)"
      by (simp add: scan_step_test)
    from Suc Cons.prems have "k < length vs" "point_estimate (vs ! k) = Some x"
      "\<forall>j<k. point_estimate (vs ! j) = None"
      by auto
    then have "scan_values vs = x" by (rule Cons.IH)
    with no show ?thesis by auto
  qed
qed

text \<open>The branches of the extractor on a document that is a key-value structure.\<close>

lemma extract_median_JObj:
  "extract_median (JObj kvs) =
     (case statistic kvs ''median'' of
        Some m \<Rightarrow> py_value (map_of m ''point_estimate'')
      | None \<Rightarrow>
         (case statistic kvs ''mean'' of
            Some m \<Rightarrow> py_value (map_of m ''point_estimate'')
          | None \<Rightarrow> scan_values (map snd kvs)))"
  by (simp add: extract_median_def is_dict_def dict_member_JObj dict_get_JObj
        dict_values_def dict_items_def split: option.splits)

lemma statistic_Some:
  "(statistic kvs k = Some m) = (map_of kvs k = Some (JObj m))"
  by (auto simp add: statistic_def split: option.splits json.splits)

lemma spec_statistic_Some:
  "statistic kvs k = Some m \<Longrightarrow> spec_statistic kvs k = map_of m ''point_estimate''"
  by (simp add: statistic_Some spec_statistic_def point_estimate_def)

lemma spec_statistic_None:
  "statistic kvs k = None \<Longrightarrow> spec_statistic kvs k = None"
  by (auto simp add: statistic_def spec_statistic_def point_estimate_def
        split: option.splits json.splits)

text \<open>
  C1, as the code has it. For every parsed document that is a key-value structure: when
  the top-level \<^verbatim>\<open>median\<close> is a key-value structure, the extractor returns its
  \<^verbatim>\<open>point_estimate\<close> field, and no estimate when the field is missing, without going on
  to \<^verbatim>\<open>mean\<close> or to the other values; when \<^verbatim>\<open>median\<close> is absent or no key-value structure
  and \<^verbatim>\<open>mean\<close> is one, the same holds for \<^verbatim>\<open>mean\<close>; and on every document in which the
  structure consulted this way holds the field (in particular when neither is a
  structure), the extractor returns what the ordered preference of the specification
  returns: the field of \<^verbatim>\<open>median\<close>, else of \<^verbatim>\<open>mean\<close>, else of the first top-level value in
  insertion order that is a key-value structure containing it, else no estimate.
\<close>

theorem extract_median_preference:
  assumes "map_of kvs1 ''median'' = Some (JObj m1)"
    and "statistic kvs2 ''median'' = None"
    and "map_of kvs2 ''mean'' = Some (JObj m2)"
    and "\<forall>m. statistic kvs3 ''median'' = Some m \<longrightarrow> map_of m ''point_estimate'' \<noteq> None"
    and "statistic kvs3 ''median'' = None \<longrightarrow>
          (\<forall>m. statistic kvs3 ''mean'' = Some m \<longrightarrow> map_of m ''point_estimate'' \<noteq> None)"
  shows "extract_median (JObj kvs1) = py_value (map_of m1 ''point_estimate'')
    \<and> extract_median (JObj kvs2) = py_value (map_of m2 ''point_estimate'')
    \<and> extract_median (JObj kvs3) = py_value (spec_extract kvs3)"
proof -
  from assms(1) have "statistic kvs1 ''median'' = Some m1"
    by (simp add: statistic_Some)
  then have one: "extract_median (JObj kvs1) = py_value (map_of m1 ''point_estimate'')"
    by (simp add: extract_median_JObj)
  from assms(3) have "statistic kvs2 ''mean'' = Some m2"
    by (simp add: statistic_Some)
  with assms(2) have two: "extract_median (JObj kvs2) = py_value (map_of m2 ''point_estimate'')"
    by (simp add: extract_median_JObj)
  have three: "extract_median (JObj kvs3) = py_value (spec_extract kvs3)"
  proof (cases "statistic kvs3 ''median''")
    case (Some m)
    with assms(4) obtain x where "map_of m ''point_estimate'' = Some x"
      by auto
    with Some show ?thesis
      by (simp add: extract_median_JObj spec_extract_def spec_statistic_Some)
  next
    case None
    note no_median = this
    show ?thesis
    proof (cases "statistic kvs3 ''mean''")
      case (Some m)
      with assms(5) no_median obtain x where "map_of m ''point_estimate'' = Some x"
        by auto
      with Some no_median show ?thesis
        by (simp add: extract_median_JObj spec_extract_def spec_statistic_Some
              spec_statistic_None)
    next
      case None
      with no_median show ?thesis
        by (simp add: extract_median_JObj spec_extract_def spec_statistic_None
              scan_values_find)
    qed
  qed
  from one two three show ?thesis by simp
qed

theorem extract_median_preference_witness:
  "extract_median (JObj [(''median'', JObj [(''confidence'', JNum (95 / 100))])]) = JNull
   \<and> extract_median (JObj [(''median'', JInt 3), (''mean'', JObj [(''point_estimate'', JInt 5)])])
       = JInt 5
   \<and> extract_median (JObj [(''slope'', JObj [(''unit'', JStr ''ns'')]),
                            (''typical'', JObj [(''point_estimate'', JNum 7)]),
                            (''other'', JObj [(''point_estimate'', JNum 9)])])
       = JNum 7"
proof -
  let ?kvs1 = "[(''median'', JObj [(''confidence'', JNum (95 / 100))])]"
  let ?kvs2 = "[(''median'', JInt 3), (''mean'', JObj [(''point_estimate'', JInt 5)])]"
  let ?kvs3 = "[(''slope'', JObj [(''unit'', JStr ''ns'')]),
                (''typical'', JObj [(''point_estimate'', JNum 7)]),
                (''other'', JObj [(''point_estimate'', JNum 9)])]"
  have h1: "map_of ?kvs1 ''median'' = Some (JObj [(''confidence'', JNum (95 / 100))])"
    by simp
  have h2: "statistic ?kvs2 ''median'' = None"
    by (simp add: statistic_def)
  have h3: "map_of ?kvs2 ''mean'' = Some (JObj [(''point_estimate'', JInt 5)])"
    by simp
  have h4: "\<forall>m. statistic ?kvs3 ''median'' = Some m \<longrightarrow> map_of m ''point_estimate'' \<noteq> None"
    by (simp add: statistic_def)
  have h5: "statistic ?kvs3 ''median'' = None \<longrightarrow>
          (\<forall>m. statistic ?kvs3 ''mean'' = Some m \<longrightarrow> map_of m ''point_estimate'' \<noteq> None)"
    by (simp add: statistic_def)
  show ?thesis
    using extract_median_preference [OF h1 h2 h3 h4 h5]
    by (simp add: py_value_def spec_extract_def spec_statistic_def point_estimate_def)
qed

text \<open>
  C1 as stated fails on the code: on a document whose \<^verbatim>\<open>median\<close> is a key-value
  structure without the field and whose \<^verbatim>\<open>mean\<close> holds the estimate 5, the ordered
  preference of the specification falls through to \<^verbatim>\<open>mean\<close> and returns 5, the extractor
  returns no estimate.
\<close>

theorem extract_median_no_fall_through:
  "spec_extract [(''median'', JObj [(''unit'', JStr ''ns'')]),
                 (''mean'', JObj [(''point_estimate'', JInt 5)])] = Some (JInt 5)
   \<and> extract_median (JObj [(''median'', JObj [(''unit'', JStr ''ns'')]),
                            (''mean'', JObj [(''point_estimate'', JInt 5)])]) = JNull"
  by (simp add: spec_extract_def spec_statistic_def point_estimate_def extract_median_def
        is_dict_def dict_member_def dict_in_def dict_items_def dict_getitem_def dict_get_def)

text \<open>
  C10. When the top-level \<^verbatim>\<open>median\<close> is a key-value structure without a
  \<^verbatim>\<open>point_estimate\<close> field, the extractor reports no estimate, whatever the rest of the
  document holds: neither \<^verbatim>\<open>mean\<close> nor the generic scan is consulted.
\<close>

theorem median_without_field_unresolved:
  assumes "map_of kvs ''median'' = Some (JObj m)"
    and "map_of m ''point_estimate'' = None"
  shows "extract_median (JObj kvs) = JNull"
proof -
  from assms(1) have "dict_member (JObj kvs) ''median'' = Some (JObj m)"
    by (simp add: dict_member_JObj statistic_def)
  with assms(2) show ?thesis
    by (simp add: extract_median_def is_dict_def dict_get_JObj py_value_def)
qed

theorem median_without_field_unresolved_witness:
  "extract_median
     (JObj [(''median'', JObj [(''unit'', JStr ''ns'')]),
            (''mean'', JObj [(''point_estimate'', JNum 5)]),
            (''slope'', JObj [(''point_estimate'', JNum 7)])]) = JNull"
  using median_without_field_unresolved
    [of "[(''median'', JObj [(''unit'', JStr ''ns'')]),
          (''mean'', JObj [(''point_estimate'', JNum 5)]),
          (''slope'', JObj [(''point_estimate'', JNum 7)])]"
        "[(''unit'', JStr ''ns'')]"]
  by simp

section \<open>Properties of the normaliser\<close>



lemma map_of_store_None: "(map_of (store r m s v) m' = None) = (map_of r m' = None)"
  by (simp add: map_of_eq_None_iff store_def dom_map_entry)

lemma mode_dict_store:
  "mode_dict (store r m s v) m' =
     (if m' = m \<and> map_of r m \<noteq> None then AList.update s v (mode_dict r m) else mode_dict r m')"
  by (auto simp add: mode_dict_def store_def map_of_map_entry split: option.splits)

lemma update_in_place:
  "k \<notin> fst ` set pre \<Longrightarrow> AList.update k v (pre @ (k, v0) # post) = pre @ (k, v) # post"
  by (induction pre) auto

text \<open>One step of the pass of \<^verbatim>\<open>plot_duckdb_write_bench.py\<close> stores the normalised value.\<close>

lemma normalize_step:
  assumes "map_of r m \<noteq> None"
    and "mode_dict r m = pre @ (s, t) # its"
    and "s \<notin> fst ` set pre"
  shows "mode_dict
           (if t > 1000000 then store r m s (t / 1000000000)
            else if t > 1000 then store r m s (t / 1000000)
            else r) m
         = pre @ (s, normalize t) # its"
proof -
  have "\<And>v. mode_dict (store r m s v) m = pre @ (s, v) # its"
    using assms by (simp add: mode_dict_store update_in_place)
  with assms(2) show ?thesis
    by (simp add: normalize_def)
qed

lemma normalize_step_keys:
  "(map_of
      (if (t :: real) > 1000000 then store r m s (t / 1000000000)
       else if t > 1000 then store r m s (t / 1000000)
       else r) m' = None)
   = (map_of r m' = None)"
  by (simp add: map_of_store_None)

lemma normalize_items_keys:
  "(map_of (normalize_items m its r) m' = None) = (map_of r m' = None)"
proof (induction its arbitrary: r)
  case Nil
  show ?case by simp
next
  case (Cons it its)
  obtain s t where "it = (s, t)" by (cases it)
  with Cons [of "if t > 1000000 then store r m s (t / 1000000000)
                 else if t > 1000 then store r m s (t / 1000000) else r"]
  show ?case
    by (simp only: normalize_items.simps normalize_step_keys)
qed

lemma normalize_items_other:
  "m' \<noteq> m \<Longrightarrow> mode_dict (normalize_items m its r) m' = mode_dict r m'"
proof (induction its arbitrary: r)
  case Nil
  show ?case by simp
next
  case (Cons it its)
  obtain s t where it: "it = (s, t)" by (cases it)
  let ?r = "if t > 1000000 then store r m s (t / 1000000000)
            else if t > 1000 then store r m s (t / 1000000) else r"
  have "mode_dict ?r m' = mode_dict r m'"
    using Cons.prems by (simp add: mode_dict_store)
  with Cons.IH [OF Cons.prems, of ?r] it show ?case
    by (simp only: normalize_items.simps)
qed

lemma normalize_items_dict:
  assumes "map_of r m \<noteq> None"
    and "mode_dict r m = pre @ its"
    and "distinct (map fst (pre @ its))"
  shows "mode_dict (normalize_items m its r) m = pre @ map (\<lambda>(s, t). (s, normalize t)) its"
  using assms
proof (induction its arbitrary: pre r)
  case Nil
  then show ?case by simp
next
  case (Cons it its)
  obtain s t where it: "it = (s, t)" by (cases it)
  let ?r = "if t > 1000000 then store r m s (t / 1000000000)
            else if t > 1000 then store r m s (t / 1000000) else r"
  from Cons.prems(3) it have fresh: "s \<notin> fst ` set pre" by auto
  have "(map_of ?r m = None) = (map_of r m = None)"
    by (rule normalize_step_keys)
  with Cons.prems(1) have key: "map_of ?r m \<noteq> None"
    by (simp only:) simp
  have "mode_dict ?r m = pre @ (s, normalize t) # its"
    using Cons.prems(1) Cons.prems(2) [unfolded it] fresh by (rule normalize_step)
  then have dict: "mode_dict ?r m = (pre @ [(s, normalize t)]) @ its"
    by simp
  have dist: "distinct (map fst ((pre @ [(s, normalize t)]) @ its))"
    using Cons.prems(3) it by simp
  have "mode_dict (normalize_items m its ?r) m
          = (pre @ [(s, normalize t)]) @ map (\<lambda>(s, t). (s, normalize t)) its"
    using key dict dist by (rule Cons.IH)
  with it show ?case
    by (simp only: normalize_items.simps) simp
qed

lemma normalize_modes_dict:
  assumes "distinct ms"
    and "\<forall>m \<in> set ms. map_of r m \<noteq> None"
    and "\<forall>m. distinct (map fst (mode_dict r m))"
  shows "mode_dict (normalize_modes ms r) m =
     (if m \<in> set ms then map (\<lambda>(s, t). (s, normalize t)) (mode_dict r m) else mode_dict r m)"
  using assms
proof (induction ms arbitrary: r)
  case Nil
  then show ?case by simp
next
  case (Cons a ms)
  let ?r = "normalize_items a (mode_dict r a) r"
  have here: "mode_dict ?r a = map (\<lambda>(s, t). (s, normalize t)) (mode_dict r a)"
    using normalize_items_dict [of r a "[]" "mode_dict r a"] Cons.prems(2,3) by simp
  have other: "\<And>m'. m' \<noteq> a \<Longrightarrow> mode_dict ?r m' = mode_dict r m'"
    by (rule normalize_items_other)
  have d: "distinct ms" using Cons.prems(1) by simp
  have "\<And>m. (map_of ?r m = None) = (map_of r m = None)"
    by (rule normalize_items_keys)
  with Cons.prems(2) have k: "\<forall>m \<in> set ms. map_of ?r m \<noteq> None"
    by simp
  have keys_same: "fst \<circ> (\<lambda>(s :: int, t). (s, normalize t)) = fst"
    by auto
  have i: "\<forall>m. distinct (map fst (mode_dict ?r m))"
  proof
    fix m show "distinct (map fst (mode_dict ?r m))"
      using Cons.prems(3) here other [of m] by (cases "m = a") (simp_all add: keys_same)
  qed
  have "mode_dict (normalize_modes ms ?r) m =
     (if m \<in> set ms then map (\<lambda>(s, t). (s, normalize t)) (mode_dict ?r m) else mode_dict ?r m)"
    by (rule Cons.IH [OF d k i])
  moreover have "a \<notin> set ms" using Cons.prems(1) by simp
  ultimately show ?case
    using here other [of m] by (cases "m = a") auto
qed

text \<open>
  C2. The normaliser divides a value above 1,000,000 by 1e9, a value above 1,000 and at
  most 1,000,000 by 1e6, and leaves a value of at most 1,000 unchanged; it maps
  2,500,000,000 to 2.5, 4,200 to 0.0042 and 0.0037 to 0.0037. The separate pass of
  \<^verbatim>\<open>plot_duckdb_write_bench.py\<close> does the same to every value stored for a mode, keeping
  the keys and their order.
\<close>

theorem normalize_thresholds:
  assumes "1000000 < a"
    and "1000 < b" and "b \<le> 1000000"
    and "c \<le> 1000"
    and "distinct ms" and "m \<in> set ms"
    and "\<forall>m \<in> set ms. map_of r m \<noteq> None"
    and "\<forall>m. distinct (map fst (mode_dict r m))"
  shows "normalize a = a / 1000000000 \<and> normalize b = b / 1000000 \<and> normalize c = c
    \<and> normalize 2500000000 = 25 / 10
    \<and> normalize 4200 = 42 / 10000
    \<and> normalize (37 / 10000) = 37 / 10000
    \<and> mode_dict (normalize_modes ms r) m = map (\<lambda>(s, t). (s, normalize t)) (mode_dict r m)
    \<and> mode_dict (normalize_modes [''csv_copy'']
          [(''csv_copy'', [(10000, 2500000000), (50000, 4200), (200000, 37 / 10000)])])
          ''csv_copy''
        = [(10000, 25 / 10), (50000, 42 / 10000), (200000, 37 / 10000)]"
proof -
  have scalars: "normalize a = a / 1000000000 \<and> normalize b = b / 1000000 \<and> normalize c = c
    \<and> normalize 2500000000 = 25 / 10
    \<and> normalize 4200 = 42 / 10000
    \<and> normalize (37 / 10000) = 37 / 10000"
    using assms(1-4) by (simp add: normalize_def)
  have pass: "mode_dict (normalize_modes ms r) m
      = map (\<lambda>(s, t). (s, normalize t)) (mode_dict r m)"
    using normalize_modes_dict [OF assms(5,7,8), of m] assms(6) by simp
  have sample: "mode_dict (normalize_modes [''csv_copy'']
          [(''csv_copy'', [(10000, 2500000000), (50000, 4200), (200000, 37 / 10000)])])
          ''csv_copy''
        = [(10000, 25 / 10), (50000, 42 / 10000), (200000, 37 / 10000)]"
    by (simp add: mode_dict_def store_def)
  from scalars pass sample show ?thesis
    by (simp only:)
qed

theorem normalize_thresholds_witness:
  "normalize 2500000000 = 2500000000 / 1000000000
    \<and> normalize 4200 = 4200 / 1000000
    \<and> normalize (37 / 10000) = 37 / 10000
    \<and> mode_dict (normalize_modes modes
         [(''appender_direct'', [(10000, 1500000)]),
          (''in_memory_ctas'', []),
          (''csv_copy'', [(50000, 4200), (10000, 37 / 10000)])]) ''csv_copy''
       = [(50000, normalize 4200), (10000, normalize (37 / 10000))]"
proof -
  let ?r = "[(''appender_direct'', [(10000, 1500000)]),
             (''in_memory_ctas'', []),
             (''csv_copy'', [(50000, 4200), (10000, 37 / 10000 :: real)])]
            :: mode_results"
  have h5: "distinct modes" by (simp add: modes_def)
  have h6: "''csv_copy'' \<in> set modes" by (simp add: modes_def)
  have h7: "\<forall>m \<in> set modes. map_of ?r m \<noteq> None" by (simp add: modes_def)
  have h8: "\<forall>m. distinct (map fst (mode_dict ?r m))" by (simp add: mode_dict_def)
  show ?thesis
    using normalize_thresholds [of 2500000000 4200 "37 / 10000", OF _ _ _ _ h5 h6 h7 h8]
    by (simp add: mode_dict_def)
qed

text \<open>
  C9. The normaliser is the identity on the seconds range: a value of at most 1,000 is
  returned unchanged, so normalising the normaliser's own output changes nothing
  whenever that output is at most 1,000.
\<close>

theorem normalize_identity_on_seconds:
  assumes "v \<le> 1000" and "normalize w \<le> 1000"
  shows "normalize v = v \<and> normalize (normalize w) = normalize w"
  using assms by (simp add: normalize_def)

theorem normalize_identity_on_seconds_witness:
  "normalize (37 / 10000) = 37 / 10000 \<and> normalize (normalize 4200) = normalize 4200"
proof -
  have "(37 / 10000 :: real) \<le> 1000" by simp
  moreover have "normalize 4200 \<le> 1000" by (simp add: normalize_def)
  ultimately show ?thesis
    by (rule normalize_identity_on_seconds)
qed

section \<open>Properties of the locator\<close>

lemma locate_primary:
  "path_exists fs (primary_path d) \<Longrightarrow> locate fs d = Some (primary_path d)"
  by (simp add: locate_def)

lemma locate_secondary:
  "\<not> path_exists fs (primary_path d) \<Longrightarrow> path_exists fs (secondary_path d)
    \<Longrightarrow> locate fs d = Some (secondary_path d)"
  by (simp add: locate_def)

lemma locate_none:
  "\<not> path_exists fs (primary_path d) \<Longrightarrow> \<not> path_exists fs (secondary_path d)
    \<Longrightarrow> locate fs d = None"
  by (simp add: locate_def)

lemma read_json_exists:
  "read_json fs p = Inr data \<Longrightarrow> path_exists fs p"
  by (auto simp add: read_json_def path_exists_def split: option.splits node.splits)

text \<open>
  C5. For every case directory the locator tries \<^verbatim>\<open>base/estimates.json\<close> first (it wins
  whenever it exists); if it is absent the locator takes \<^verbatim>\<open>new/benchmark.json\<close>, and the
  estimate is then extracted from that file's content; if neither exists the case is
  unresolved.
\<close>

theorem locate_primary_then_secondary:
  assumes "path_exists fs1 (primary_path d1)"
    and "\<not> path_exists fs2 (primary_path d2)"
    and "read_json fs2 (secondary_path d2) = Inr data"
    and "extract_median data = x" and "x \<noteq> JNull" and "to_float py x = Inr r"
    and "\<not> path_exists fs3 (primary_path d3)"
    and "\<not> path_exists fs3 (secondary_path d3)"
  shows "locate fs1 d1 = Some (primary_path d1)
    \<and> locate fs2 d2 = Some (secondary_path d2)
    \<and> resolve py fs2 d2 = Inr (Raw r)
    \<and> locate fs3 d3 = None
    \<and> resolve py fs3 d3 = Inr NoFile"
proof -
  have one: "locate fs1 d1 = Some (primary_path d1)"
    using assms(1) by (rule locate_primary)
  have "path_exists fs2 (secondary_path d2)"
    using assms(3) by (rule read_json_exists)
  with assms(2) have two: "locate fs2 d2 = Some (secondary_path d2)"
    by (rule locate_secondary)
  with assms(3-6) have three: "resolve py fs2 d2 = Inr (Raw r)"
    by (simp add: resolve_def)
  have four: "locate fs3 d3 = None"
    using assms(7,8) by (rule locate_none)
  then have "resolve py fs3 d3 = Inr NoFile"
    by (simp add: resolve_def)
  with one two three four show ?thesis by simp
qed

theorem locate_primary_then_secondary_witness:
  "locate (map_of [([''c'', ''base'', ''estimates.json''], File None),
                   ([''c'', ''new'', ''benchmark.json''], File None)]) [''c'']
     = Some [''c'', ''base'', ''estimates.json'']
   \<and> locate (map_of [([''c'', ''new'', ''benchmark.json''],
        File (Some (JObj [(''mean'', JObj [(''point_estimate'', JInt 4200)])])))]) [''c'']
     = Some [''c'', ''new'', ''benchmark.json'']
   \<and> resolve no_conversions (map_of [([''c'', ''new'', ''benchmark.json''],
        File (Some (JObj [(''mean'', JObj [(''point_estimate'', JInt 4200)])])))]) [''c'']
     = Inr (Raw 4200)
   \<and> locate (map_of [([''c''], Dir [])]) [''c''] = None
   \<and> resolve no_conversions (map_of [([''c''], Dir [])]) [''c''] = Inr NoFile"
proof -
  let ?fs1 = "map_of [([''c'', ''base'', ''estimates.json''], File None),
                      ([''c'', ''new'', ''benchmark.json''], File None)]"
  let ?data = "JObj [(''mean'', JObj [(''point_estimate'', JInt 4200)])]"
  let ?fs2 = "map_of [([''c'', ''new'', ''benchmark.json''], File (Some ?data))]"
  let ?fs3 = "map_of [([''c''], Dir [])]"
  have h1: "path_exists ?fs1 (primary_path [''c''])"
    by (simp add: path_exists_def primary_path_def)
  have h2: "\<not> path_exists ?fs2 (primary_path [''c''])"
    by (simp add: path_exists_def primary_path_def)
  have h3: "read_json ?fs2 (secondary_path [''c'']) = Inr ?data"
    by (simp add: read_json_def secondary_path_def)
  have h4: "extract_median ?data = JInt 4200"
    by (simp add: extract_median_def is_dict_def dict_member_def dict_in_def dict_items_def
          dict_getitem_def dict_get_def)
  have h5: "JInt 4200 \<noteq> JNull"
    by simp
  have h6: "to_float no_conversions (JInt 4200) = Inr 4200"
    by (simp add: to_float_def)
  have h7: "\<not> path_exists ?fs3 (primary_path [''c''])"
    by (simp add: path_exists_def primary_path_def)
  have h8: "\<not> path_exists ?fs3 (secondary_path [''c''])"
    by (simp add: path_exists_def secondary_path_def)
  show ?thesis
    using locate_primary_then_secondary [OF h1 h2 h3 h4 h5 h6 h7 h8]
    by (simp add: primary_path_def secondary_path_def)
qed

section \<open>Properties of the collecting loops\<close>



subsection \<open>\<^verbatim>\<open>plot_datetime_bench.py\<close>\<close>




subsection \<open>\<^verbatim>\<open>plot_sqllog_varied.py\<close>\<close>



text \<open>
  When every entry before a case is a directory with an estimate, the points gathered
  before the case are as many as the entries before it.
\<close>

lemma series_collect_prefix:
  assumes "\<forall>n \<in> set pre. is_dir fs (base @ [n])
              \<and> (\<exists>u. resolve py fs (base @ [n]) = Inr (Raw u))"
  shows "\<exists>ks vs. length ks = length ks0 + length pre
     \<and> series_collect py fs base (pre @ rest) (ks0, vs0)
         = series_collect py fs base rest (ks, vs)"
  using assms
proof (induction pre arbitrary: ks0 vs0)
  case Nil
  show ?case
    by (rule exI [of _ ks0], rule exI [of _ vs0]) simp
next
  case (Cons n pre)
  then obtain u where d: "is_dir fs (base @ [n])"
    and u: "resolve py fs (base @ [n]) = Inr (Raw u)"
    by auto
  let ?ks = "ks0 @ [case py_int py n of Some k \<Rightarrow> k | None \<Rightarrow> int (length ks0)]"
  let ?vs = "vs0 @ [normalize u]"
  from Cons.prems have "\<forall>n \<in> set pre. is_dir fs (base @ [n])
              \<and> (\<exists>u. resolve py fs (base @ [n]) = Inr (Raw u))"
    by simp
  from Cons.IH [OF this, of ?ks ?vs] obtain ks vs where
    "length ks = length ?ks + length pre"
    and "series_collect py fs base (pre @ rest) (?ks, ?vs)
           = series_collect py fs base rest (ks, vs)"
    by blast
  with d u show ?case
    by auto
qed





subsection \<open>\<^verbatim>\<open>plot_duckdb_write_bench.py\<close>\<close>









lemma mode_line_sorted:
  "mode_line r m = (l, xs, ys) \<Longrightarrow> sorted xs \<and> length ys = length xs"
  by (auto simp add: mode_line_def Let_def)


section \<open>The reports on the example trees\<close>

lemmas tree_eval =
  resolve_def locate_def primary_path_def secondary_path_def path_exists_def read_json_def
  is_dir_def iterdir_def estimates_file_def extract_median_def is_dict_def dict_member_def
  dict_in_def dict_items_def dict_getitem_def dict_get_def dict_values_def to_float_def


lemma py_int_samples:
  "py_int py ''1000'' = Some 1000"
  "py_int py ''10000'' = Some 10000"
  "py_int py ''50000'' = Some 50000"
  "py_int py ''200000'' = Some 200000"
  "py_int py ''large'' = None"
  by (simp_all add: py_int_def is_ascii_def ascii_int_def strip_def is_space_def py_nat_def
        is_digit_def digit_value_def)

lemma sweep_tree_series:
  "extract_series no_conversions sweep_tree ''sqllog_write_file''
     = ([], Inr (Some ([10000, 200000, 50000], [1 / 100, 20 / 100, 5 / 100])))"
  by (simp add: extract_series_def criterion_root_def sweep_tree_def tree_eval py_int_samples
        normalize_def)

lemma named_tree_series:
  "extract_series no_conversions named_tree ''sqllog_parse_file''
     = ([], Inr (Some ([0], [42 / 10000])))"
  by (simp add: extract_series_def criterion_root_def named_tree_def tree_eval py_int_samples
        normalize_def)




section \<open>Properties of the reports\<close>


lemma full_tree_resolve:
  "resolve py full_tree (datetime_root @ [''fast_valid'']) = Inr (Raw 1500000)"
  "resolve py full_tree (duckdb_root @ [''csv_copy'', ''50000'']) = Inr (Raw 2500000000)"
  "resolve py full_tree sqllog_root = Inr (Raw 4200)"
  "resolve py full_tree (criterion_root @ [''sqllog_write_file'', ''1000'']) = Inr (Raw (37 / 10000))"
  "resolve py full_tree (criterion_root @ [''sqllog_write_file'', ''large'']) = Inr (Raw 4200)"
  by (simp_all add: datetime_root_def duckdb_root_def sqllog_root_def criterion_root_def
        full_tree_def tree_eval)








text \<open>
  C4 fails on \<^verbatim>\<open>plot_sqllog_varied.py\<close>: \<^verbatim>\<open>extract_series\<close> visits the case directories
  in the order of their names as strings, so for the sizes 10000, 50000 and 200000 the
  series comes out as 10000, 200000, 50000, which is not ascending by size.
\<close>

theorem sweep_series_not_ascending:
  "extract_series no_conversions sweep_tree ''sqllog_write_file''
     = ([], Inr (Some ([10000, 200000, 50000], [1 / 100, 20 / 100, 5 / 100])))
   \<and> \<not> sorted [10000, 200000, 50000 :: int]"
  by (simp add: sweep_tree_series)







text \<open>
  C8, as the code has it. In \<^verbatim>\<open>extract_series\<close>, a resolved case whose directory name
  is not an integer takes as its key the number of points gathered before it; the point
  is kept and the loop goes on with the remaining directories. That number is the
  position of the case in iteration order when every entry before it is a directory
  with an estimate (entries skipped before it are not counted).
\<close>

theorem non_integer_name_positional_key:
  assumes "is_dir fs (base @ [name])"
    and "resolve py fs (base @ [name]) = Inr (Raw t)"
    and "py_int py name = None"
    and "\<forall>n \<in> set pre. is_dir fs (base @ [n])
            \<and> (\<exists>u. resolve py fs (base @ [n]) = Inr (Raw u))"
  shows "series_collect py fs base (name # names) (keys, vals) =
           series_collect py fs base names (keys @ [int (length keys)], vals @ [normalize t])
    \<and> (\<exists>ks vs. length ks = length pre
          \<and> series_collect py fs base (pre @ name # names) ([], []) =
              series_collect py fs base names
                (ks @ [int (length pre)], vs @ [normalize t]))"
proof -
  have step: "\<And>keys vals. series_collect py fs base (name # names) (keys, vals) =
           series_collect py fs base names (keys @ [int (length keys)], vals @ [normalize t])"
    using assms(1,2,3) by simp
  from series_collect_prefix [OF assms(4), of "[]" "name # names" "[]"]
  obtain ks vs where len: "length ks = length pre"
    and run: "series_collect py fs base (pre @ name # names) ([], []) =
                series_collect py fs base (name # names) (ks, vs)"
    by auto
  from run step [of ks vs] len
  have "length ks = length pre
          \<and> series_collect py fs base (pre @ name # names) ([], []) =
              series_collect py fs base names
                (ks @ [int (length pre)], vs @ [normalize t])"
    by simp
  then have "\<exists>ks vs. length ks = length pre
          \<and> series_collect py fs base (pre @ name # names) ([], []) =
              series_collect py fs base names
                (ks @ [int (length pre)], vs @ [normalize t])"
    by blast
  with step [of keys vals] show ?thesis
    by (simp only:)
qed

theorem non_integer_name_positional_key_witness:
  "series_collect no_conversions full_tree (criterion_root @ [''sqllog_write_file''])
       [''large''] ([1000], [37 / 10000]) =
     series_collect no_conversions full_tree (criterion_root @ [''sqllog_write_file''])
       [] ([1000] @ [int (length [1000 :: int])], [37 / 10000] @ [normalize 4200])
   \<and> (\<exists>ks vs. length ks = length [''1000'']
          \<and> series_collect no_conversions full_tree (criterion_root @ [''sqllog_write_file''])
                ([''1000''] @ [''large'']) ([], []) =
              series_collect no_conversions full_tree (criterion_root @ [''sqllog_write_file''])
                [] (ks @ [int (length [''1000''])], vs @ [normalize 4200]))"
proof -
  let ?base = "criterion_root @ [''sqllog_write_file'']"
  have h1: "is_dir full_tree (?base @ [''large''])"
    by (simp add: is_dir_def criterion_root_def full_tree_def)
  have h2: "resolve no_conversions full_tree (?base @ [''large'']) = Inr (Raw 4200)"
    using full_tree_resolve(5) [of no_conversions] by simp
  have h3: "py_int no_conversions ''large'' = None"
    by (rule py_int_samples)
  have d: "is_dir full_tree (?base @ [''1000''])"
    by (simp add: is_dir_def criterion_root_def full_tree_def)
  have r: "resolve no_conversions full_tree (?base @ [''1000'']) = Inr (Raw (37 / 10000))"
    using full_tree_resolve(4) [of no_conversions] by simp
  have h4: "\<forall>n \<in> set [''1000'']. is_dir full_tree (?base @ [n])
            \<and> (\<exists>u. resolve no_conversions full_tree (?base @ [n]) = Inr (Raw u))"
  proof
    fix n assume "n \<in> set [''1000'']"
    then have "n = ''1000''" by simp
    with d r show "is_dir full_tree (?base @ [n])
            \<and> (\<exists>u. resolve no_conversions full_tree (?base @ [n]) = Inr (Raw u))"
      by blast
  qed
  show ?thesis
    by (rule non_integer_name_positional_key [OF h1 h2 h3 h4, of "[]" "[1000]" "[37 / 10000]"])
qed

text \<open>
  C8 as stated fails on the code: in a group with the entries \<^verbatim>\<open>1000\<close> (a case without
  result file) and \<^verbatim>\<open>large\<close>, the case \<^verbatim>\<open>large\<close> comes second in iteration order, after
  \<^verbatim>\<open>1000\<close>, and its key is 0, the number of points gathered before it.
\<close>

theorem positional_key_skips_unresolved:
  "sort [''large'', ''1000''] = [''1000'', ''large'']
   \<and> extract_series no_conversions named_tree ''sqllog_parse_file''
       = ([], Inr (Some ([0], [42 / 10000])))"
  by (simp add: named_tree_series)

end
